theory Spec2Isabelle
  imports Complex_Main "HOL-Library.Signed_Division"
begin

section \<open>Tile-size configurations\<close>

text \<open>
  A \<^verbatim>\<open>triton.Config\<close>: the meta-parameters of the kernel and the two launch hints.
  The HIP catalog adds \<^verbatim>\<open>waves_per_eu\<close>.
\<close>

record Config =
  BLOCK_SIZE_M :: int
  BLOCK_SIZE_N :: int
  BLOCK_SIZE_K :: int
  GROUP_SIZE_M :: int
  num_stages :: int
  num_warps :: int
  waves_per_eu :: "int option"

definition mk_config :: "int \<Rightarrow> int \<Rightarrow> int \<Rightarrow> int \<Rightarrow> int option \<Rightarrow> int \<Rightarrow> int \<Rightarrow> Config" where
  "mk_config bm bn bk g w stages warps =
     \<lparr>BLOCK_SIZE_M = bm, BLOCK_SIZE_N = bn, BLOCK_SIZE_K = bk, GROUP_SIZE_M = g,
      num_stages = stages, num_warps = warps, waves_per_eu = w\<rparr>"

definition get_cuda_autotune_config :: "Config list" where
  "get_cuda_autotune_config =
    [mk_config 128 256 64 8 None 3 8,
     mk_config 64 256 32 8 None 4 4,
     mk_config 128 128 32 8 None 4 4,
     mk_config 128 64 32 8 None 4 4,
     mk_config 64 128 32 8 None 4 4,
     mk_config 128 32 32 8 None 4 4,
     mk_config 64 32 32 8 None 5 2,
     mk_config 32 64 32 8 None 5 2,
     mk_config 128 256 128 8 None 3 8,
     mk_config 256 128 128 8 None 3 8,
     mk_config 256 64 128 8 None 4 4,
     mk_config 64 256 128 8 None 4 4,
     mk_config 128 128 128 8 None 4 4,
     mk_config 128 64 64 8 None 4 4,
     mk_config 64 128 64 8 None 4 4,
     mk_config 128 32 64 8 None 4 4]"

definition get_hip_autotune_config :: "Config list" where
  "get_hip_autotune_config =
    [mk_config 128 256 16 1 (Some 2) 2 4,
     mk_config 256 256 16 4 (Some 2) 2 8,
     mk_config 128 128 32 1 (Some 2) 2 8,
     mk_config 64 128 32 8 (Some 3) 2 4,
     mk_config 64 64 32 1 (Some 8) 2 4]"

text \<open>\<^verbatim>\<open>is_cuda()\<close> asks the driver for the active backend; it is a parameter here.\<close>

definition get_autotune_config :: "bool \<Rightarrow> Config list" where
  "get_autotune_config is_cuda =
     (if is_cuda then get_cuda_autotune_config else get_hip_autotune_config)"

section \<open>Machine integers\<close>

text \<open>
  The integers of the kernel are machine integers. An integer argument of the kernel is
  passed as a signed 32-bit integer when its value fits and as a signed 64-bit integer
  otherwise; program ids, the elements of \<^verbatim>\<open>tl.arange\<close> and the constants \<^verbatim>\<open>BLOCK_SIZE_M\<close>,
  \<^verbatim>\<open>BLOCK_SIZE_N\<close>, \<^verbatim>\<open>BLOCK_SIZE_K\<close> and \<^verbatim>\<open>GROUP_SIZE_M\<close> are 32-bit. Addition, subtraction and
  multiplication wrap around at the width of the wider operand; \<^verbatim>\<open>//\<close> and \<^verbatim>\<open>%\<close> truncate
  towards zero. A typed integer is the pair of its width and its value. Division by zero
  and the quotient of the least integer by \<open>-1\<close> have no defined result on the machine;
  here they have the value that \<open>sdiv\<close> and \<open>smod\<close> give them.
\<close>

type_synonym tint = "nat \<times> int"

definition wrap :: "nat \<Rightarrow> int \<Rightarrow> int" where
  "wrap b x = (x + 2 ^ (b - 1)) mod 2 ^ b - 2 ^ (b - 1)"

definition int32 :: "int \<Rightarrow> tint" where
  "int32 v = (32, wrap 32 v)"

definition scalar_arg :: "int \<Rightarrow> tint" where
  "scalar_arg v = (if - (2 ^ 31) \<le> v \<and> v < 2 ^ 31 then (32, v) else (64, wrap 64 v))"

definition tadd :: "tint \<Rightarrow> tint \<Rightarrow> tint" where
  "tadd x y = (max (fst x) (fst y), wrap (max (fst x) (fst y)) (snd x + snd y))"

definition tsub :: "tint \<Rightarrow> tint \<Rightarrow> tint" where
  "tsub x y = (max (fst x) (fst y), wrap (max (fst x) (fst y)) (snd x - snd y))"

definition tmul :: "tint \<Rightarrow> tint \<Rightarrow> tint" where
  "tmul x y = (max (fst x) (fst y), wrap (max (fst x) (fst y)) (snd x * snd y))"

definition tdiv :: "tint \<Rightarrow> tint \<Rightarrow> tint" where
  "tdiv x y = (max (fst x) (fst y), snd x sdiv snd y)"

definition tmod :: "tint \<Rightarrow> tint \<Rightarrow> tint" where
  "tmod x y = (max (fst x) (fst y), snd x smod snd y)"

definition tmin :: "tint \<Rightarrow> tint \<Rightarrow> tint" where
  "tmin x y = (max (fst x) (fst y), min (snd x) (snd y))"

definition tless :: "tint \<Rightarrow> tint \<Rightarrow> bool" where
  "tless x y \<longleftrightarrow> snd x < snd y"

text \<open>\<^verbatim>\<open>tl.cdiv(x, div)\<close> is \<^verbatim>\<open>(x + div - 1) // div\<close>, and \<^verbatim>\<open>tl.arange(lo, hi)\<close>.\<close>

definition tl_cdiv :: "tint \<Rightarrow> tint \<Rightarrow> tint" where
  "tl_cdiv x d = tdiv (tsub (tadd x d) (int32 1)) d"

definition tl_arange :: "int \<Rightarrow> int \<Rightarrow> tint list" where
  "tl_arange lo hi = map (\<lambda>i. int32 (lo + int i)) [0..<nat (hi - lo)]"

section \<open>Index arithmetic\<close>

text \<open>
  On the host, sizes are Python integers, which are unbounded: \<^verbatim>\<open>triton.cdiv\<close> in the grid
  of \<^verbatim>\<open>matmul\<close>.
\<close>

definition cdiv :: "int \<Rightarrow> int \<Rightarrow> int" where
  "cdiv x d = (x + d - 1) div d"

text \<open>
  The first section of \<^verbatim>\<open>matmul_kernel\<close>: the tile \<open>(pid_m, pid_n)\<close> of the program with the
  id \<open>program_id\<close>, computed on machine integers.
\<close>

definition program_tile :: "int \<Rightarrow> int \<Rightarrow> Config \<Rightarrow> int \<Rightarrow> tint \<times> tint" where
  "program_tile M N cfg program_id =
    (let pid = int32 program_id;
         num_pid_m = tl_cdiv (scalar_arg M) (int32 (BLOCK_SIZE_M cfg));
         num_pid_n = tl_cdiv (scalar_arg N) (int32 (BLOCK_SIZE_N cfg));
         num_pid_in_group = tmul (int32 (GROUP_SIZE_M cfg)) num_pid_n;
         group_id = tdiv pid num_pid_in_group;
         first_pid_m = tmul group_id (int32 (GROUP_SIZE_M cfg));
         group_size_m = tmin (tsub num_pid_m first_pid_m) (int32 (GROUP_SIZE_M cfg));
         pid_m = tadd first_pid_m (tmod (tmod pid num_pid_in_group) group_size_m);
         pid_n = tdiv (tmod pid num_pid_in_group) group_size_m
     in (pid_m, pid_n))"


section \<open>Blocks and memory\<close>

text \<open>
  The element types that occur in the source. Element values are modelled as exact reals:
  the rounding of the 32-bit accumulation is not represented, and the narrowing
  \<^verbatim>\<open>.to(tl.float16)\<close> is a parameter \<open>cast\<close> of the kernel.
\<close>

datatype dtype = Float8e5m2 | Float16 | Float32

text \<open>
  A buffer maps element addresses to values. \<open>A\<close>, \<open>B\<close> and \<open>C\<close> live in buffers of their own
  (\<open>C\<close> is freshly allocated by \<^verbatim>\<open>matmul\<close>), and a pointer is an address in its buffer.
\<close>

type_synonym buffer = "int \<Rightarrow> real"

text \<open>A two-dimensional Triton block: its element type and its rows.\<close>

record block =
  elem :: dtype
  vals :: "real list list"

definition arange :: "int \<Rightarrow> int \<Rightarrow> int list" where
  "arange lo hi = map (\<lambda>i. lo + int i) [0..<nat (hi - lo)]"

text \<open>\<^verbatim>\<open>f(xs[:, None], ys[None, :])\<close>: broadcasting a column against a row.\<close>

definition broadcast2 :: "('a \<Rightarrow> 'b \<Rightarrow> 'c) \<Rightarrow> 'a list \<Rightarrow> 'b list \<Rightarrow> 'c list list" where
  "broadcast2 f xs ys = map (\<lambda>x. map (f x) ys) xs"

definition tl_zeros :: "int \<Rightarrow> int \<Rightarrow> dtype \<Rightarrow> block" where
  "tl_zeros m n dt = \<lparr>elem = dt, vals = replicate (nat m) (replicate (nat n) 0)\<rparr>"

definition tl_load :: "buffer \<Rightarrow> dtype \<Rightarrow> int list list \<Rightarrow> bool list list \<Rightarrow> real \<Rightarrow> block" where
  "tl_load buf dt ptrs msk other =
     \<lparr>elem = dt,
      vals = map2 (map2 (\<lambda>p m. if m then buf p else other)) ptrs msk\<rparr>"

text \<open>\<^verbatim>\<open>tl.dot(a, b, acc)\<close>: \<open>acc + a \<times> b\<close>, in the element type of \<open>acc\<close>.\<close>

definition tl_dot :: "block \<Rightarrow> block \<Rightarrow> block \<Rightarrow> block" where
  "tl_dot a b acc =
     \<lparr>elem = elem acc,
      vals = map2 (\<lambda>arow crow.
               map2 (\<lambda>j c. c + (\<Sum>(x, brow) \<leftarrow> zip arow (vals b). x * brow ! j))
                 [0..<length crow] crow)
               (vals a) (vals acc)\<rparr>"

definition tl_to :: "(dtype \<Rightarrow> real \<Rightarrow> real) \<Rightarrow> block \<Rightarrow> dtype \<Rightarrow> block" where
  "tl_to cast x dt = \<lparr>elem = dt, vals = map (map (cast dt)) (vals x)\<rparr>"

text \<open>A masked store writes the elements whose mask is set, one after the other.\<close>

definition store_row :: "int list \<Rightarrow> real list \<Rightarrow> bool list \<Rightarrow> buffer \<Rightarrow> buffer" where
  "store_row ps vs ms buf =
     fold (\<lambda>(p, v, m) buf. if m then buf(p := v) else buf) (zip ps (zip vs ms)) buf"

definition tl_store :: "buffer \<Rightarrow> int list list \<Rightarrow> block \<Rightarrow> bool list list \<Rightarrow> buffer" where
  "tl_store buf ptrs c msk =
     fold (\<lambda>(ps, vs, ms) buf. store_row ps vs ms buf) (zip ptrs (zip (vals c) msk)) buf"

section \<open>The kernel\<close>

definition leaky_relu :: "block \<Rightarrow> block" where
  "leaky_relu x =
     \<lparr>elem = elem x, vals = map (map (\<lambda>v. if v \<ge> 0 then v else 0.01 * v)) (vals x)\<rparr>"

text \<open>
  The run-time arguments of \<^verbatim>\<open>matmul_kernel\<close>; \<open>a_elem\<close> and \<open>b_elem\<close> are the element
  types of the pointers \<open>a_ptr\<close> and \<open>b_ptr\<close>.
\<close>

record kernel_args =
  a_ptr :: int
  b_ptr :: int
  c_ptr :: int
  a_elem :: dtype
  b_elem :: dtype
  dim_M :: int
  dim_N :: int
  dim_K :: int
  stride_am :: int
  stride_ak :: int
  stride_bk :: int
  stride_bn :: int
  stride_cm :: int
  stride_cn :: int

text \<open>
  The pointers to the first blocks of \<open>A\<close> and \<open>B\<close> for the tile \<open>(pid_m, pid_n)\<close>. The offsets
  are computed on machine integers and then added to the pointer; pointers are addresses
  in the buffer, counted in elements, and pointer arithmetic does not wrap.
\<close>

definition first_ptrs ::
  "kernel_args \<Rightarrow> Config \<Rightarrow> tint \<Rightarrow> tint \<Rightarrow> int list list \<times> int list list" where
  "first_ptrs args cfg pid_m pid_n =
    (let offs_am = map (\<lambda>i. tmod (tadd (tmul pid_m (int32 (BLOCK_SIZE_M cfg))) i)
                              (scalar_arg (dim_M args)))
                     (tl_arange 0 (BLOCK_SIZE_M cfg));
         offs_bn = map (\<lambda>i. tmod (tadd (tmul pid_n (int32 (BLOCK_SIZE_N cfg))) i)
                              (scalar_arg (dim_N args)))
                     (tl_arange 0 (BLOCK_SIZE_N cfg));
         offs_k = tl_arange 0 (BLOCK_SIZE_K cfg);
         a_ptrs = map (map (\<lambda>off. a_ptr args + snd off))
                    (broadcast2 (\<lambda>m k. tadd (tmul m (scalar_arg (stride_am args)))
                                          (tmul k (scalar_arg (stride_ak args))))
                       offs_am offs_k);
         b_ptrs = map (map (\<lambda>off. b_ptr args + snd off))
                    (broadcast2 (\<lambda>k n. tadd (tmul k (scalar_arg (stride_bk args)))
                                          (tmul n (scalar_arg (stride_bn args))))
                       offs_k offs_bn)
     in (a_ptrs, b_ptrs))"

text \<open>The blocks of \<open>A\<close> and \<open>B\<close> loaded in iteration \<open>k\<close>, masked along the \<open>K\<close> axis.\<close>

definition load_a :: "buffer \<Rightarrow> kernel_args \<Rightarrow> Config \<Rightarrow> tint \<Rightarrow> int list list \<Rightarrow> block" where
  "load_a a_buf args cfg k a_ptrs =
    (let offs_k = tl_arange 0 (BLOCK_SIZE_K cfg)
     in tl_load a_buf (a_elem args) a_ptrs
          (replicate (nat (BLOCK_SIZE_M cfg))
             (map (\<lambda>ok. tless ok (tsub (scalar_arg (dim_K args))
                                    (tmul k (int32 (BLOCK_SIZE_K cfg))))) offs_k)) 0.0)"

definition load_b :: "buffer \<Rightarrow> kernel_args \<Rightarrow> Config \<Rightarrow> tint \<Rightarrow> int list list \<Rightarrow> block" where
  "load_b b_buf args cfg k b_ptrs =
    (let offs_k = tl_arange 0 (BLOCK_SIZE_K cfg)
     in tl_load b_buf (b_elem args) b_ptrs
          (map (\<lambda>ok. replicate (nat (BLOCK_SIZE_N cfg))
                  (tless ok (tsub (scalar_arg (dim_K args))
                               (tmul k (int32 (BLOCK_SIZE_K cfg)))))) offs_k) 0.0)"

text \<open>One iteration of the loop over \<open>k\<close>, on the state \<open>(accumulator, a_ptrs, b_ptrs)\<close>.\<close>

definition k_step ::
  "buffer \<Rightarrow> buffer \<Rightarrow> kernel_args \<Rightarrow> Config \<Rightarrow> tint \<Rightarrow>
   block \<times> int list list \<times> int list list \<Rightarrow> block \<times> int list list \<times> int list list" where
  "k_step a_buf b_buf args cfg k st =
    (case st of (accumulator, a_ptrs, b_ptrs) \<Rightarrow>
      let a = load_a a_buf args cfg k a_ptrs;
          b = load_b b_buf args cfg k b_ptrs;
          accumulator = tl_dot a b accumulator;
          a_ptrs = map (map (\<lambda>p. p + snd (tmul (int32 (BLOCK_SIZE_K cfg))
                                             (scalar_arg (stride_ak args))))) a_ptrs;
          b_ptrs = map (map (\<lambda>p. p + snd (tmul (int32 (BLOCK_SIZE_K cfg))
                                             (scalar_arg (stride_bk args))))) b_ptrs
      in (accumulator, a_ptrs, b_ptrs))"

text \<open>
  The values of \<open>k\<close> the loop runs through, \<^verbatim>\<open>range(0, tl.cdiv(K, BLOCK_SIZE_K))\<close>, in the
  width of the bound.
\<close>

definition k_range :: "kernel_args \<Rightarrow> Config \<Rightarrow> tint list" where
  "k_range args cfg =
    (let n = tl_cdiv (scalar_arg (dim_K args)) (int32 (BLOCK_SIZE_K cfg))
     in map (\<lambda>i. (fst n, i)) (arange 0 (snd n)))"

definition k_loop ::
  "buffer \<Rightarrow> buffer \<Rightarrow> kernel_args \<Rightarrow> Config \<Rightarrow> tint \<Rightarrow> tint \<Rightarrow> block" where
  "k_loop a_buf b_buf args cfg pid_m pid_n =
    (let (a_ptrs, b_ptrs) = first_ptrs args cfg pid_m pid_n;
         accumulator = tl_zeros (BLOCK_SIZE_M cfg) (BLOCK_SIZE_N cfg) Float32
     in fst (fold (k_step a_buf b_buf args cfg) (k_range args cfg)
               (accumulator, a_ptrs, b_ptrs)))"

definition activation :: "string \<Rightarrow> block \<Rightarrow> block" where
  "activation ACTIVATION accumulator =
     (if ACTIVATION = ''leaky_relu'' then leaky_relu accumulator else accumulator)"

text \<open>
  Writing the block \<open>c\<close> of tile \<open>(pid_m, pid_n)\<close> back, masked by the extent of \<open>C\<close>. Each of
  the two products is a machine integer that is added to the pointer.
\<close>

definition write_back ::
  "kernel_args \<Rightarrow> Config \<Rightarrow> tint \<Rightarrow> tint \<Rightarrow> block \<Rightarrow> buffer \<Rightarrow> buffer" where
  "write_back args cfg pid_m pid_n c c_buf =
    (let offs_cm = map (\<lambda>i. tadd (tmul pid_m (int32 (BLOCK_SIZE_M cfg))) i)
                     (tl_arange 0 (BLOCK_SIZE_M cfg));
         offs_cn = map (\<lambda>i. tadd (tmul pid_n (int32 (BLOCK_SIZE_N cfg))) i)
                     (tl_arange 0 (BLOCK_SIZE_N cfg));
         c_ptrs = broadcast2 (\<lambda>m n. c_ptr args + snd (tmul (scalar_arg (stride_cm args)) m)
                                      + snd (tmul (scalar_arg (stride_cn args)) n))
                    offs_cm offs_cn;
         c_mask = broadcast2 (\<lambda>m n. tless m (scalar_arg (dim_M args))
                                      \<and> tless n (scalar_arg (dim_N args))) offs_cm offs_cn
     in tl_store c_buf c_ptrs c c_mask)"

text \<open>
  One program instance of \<^verbatim>\<open>matmul_kernel\<close>: it reads the buffers of \<open>A\<close> and \<open>B\<close> and
  returns the buffer of \<open>C\<close> after its store.
\<close>

definition matmul_kernel ::
  "(dtype \<Rightarrow> real \<Rightarrow> real) \<Rightarrow> buffer \<Rightarrow> buffer \<Rightarrow> kernel_args \<Rightarrow> Config \<Rightarrow> string \<Rightarrow>
   int \<Rightarrow> buffer \<Rightarrow> buffer" where
  "matmul_kernel cast a_buf b_buf args cfg ACTIVATION program_id c_buf =
    (let (pid_m, pid_n) = program_tile (dim_M args) (dim_N args) cfg program_id;
         accumulator = k_loop a_buf b_buf args cfg pid_m pid_n;
         accumulator = activation ACTIVATION accumulator;
         c = tl_to cast accumulator Float16
     in write_back args cfg pid_m pid_n c c_buf)"

text \<open>
  \<^verbatim>\<open>kernel[grid](...)\<close>: one program instance for each \<open>pid\<close> below \<open>grid\<close>, run here in the
  order of \<open>pid\<close>. The second component counts the instances that were run.
\<close>

definition launch :: "int \<Rightarrow> (int \<Rightarrow> buffer \<Rightarrow> buffer) \<Rightarrow> buffer \<Rightarrow> buffer \<times> nat" where
  "launch grid kern c_buf =
     fold (\<lambda>pid (buf, n). (kern pid buf, Suc n)) (arange 0 grid) (c_buf, 0)"

section \<open>The kernel over unbounded integers\<close>













section \<open>Matrix views and the reference product\<close>



definition C_addr :: "kernel_args \<Rightarrow> int \<Rightarrow> int \<Rightarrow> int" where
  "C_addr args i j = c_ptr args + stride_cm args * i + stride_cn args * j"



text \<open>A block given by its entries: \<open>m\<close> rows of \<open>n\<close> elements, \<open>f r c\<close> at row \<open>r\<close>, column \<open>c\<close>.\<close>

definition table :: "(nat \<Rightarrow> nat \<Rightarrow> 'a) \<Rightarrow> nat \<Rightarrow> nat \<Rightarrow> 'a list list" where
  "table f m n = map (\<lambda>r. map (f r) [0..<n]) [0..<m]"

text \<open>
  The state of the loop over \<open>k\<close> after \<open>n\<close> iterations, for the tile \<open>(pid_m, pid_n)\<close>, in
  closed form: the partial products over the first \<open>min (n * BLOCK_SIZE_K) K\<close> indices, and
  the pointers advanced \<open>n\<close> times.
\<close>

definition offs_am :: "kernel_args \<Rightarrow> Config \<Rightarrow> int \<Rightarrow> nat \<Rightarrow> int" where
  "offs_am args cfg pid_m r = (pid_m * BLOCK_SIZE_M cfg + int r) mod dim_M args"

definition offs_bn :: "kernel_args \<Rightarrow> Config \<Rightarrow> int \<Rightarrow> nat \<Rightarrow> int" where
  "offs_bn args cfg pid_n c = (pid_n * BLOCK_SIZE_N cfg + int c) mod dim_N args"







text \<open>Distinct elements of \<open>C\<close> have distinct addresses.\<close>

definition C_distinct :: "kernel_args \<Rightarrow> bool" where
  "C_distinct args \<longleftrightarrow>
     inj_on (\<lambda>(i, j). C_addr args i j) ({0..<dim_M args} \<times> {0..<dim_N args})"

section \<open>A small instance\<close>

text \<open>
  Two by two matrices, row-major, under the last configuration of the HIP catalog:
  \<open>A\<close> with the rows \<open>[0, 1]\<close> and \<open>[2, 3]\<close>, and \<open>B\<close> all ones.
\<close>

definition small_cfg :: Config where
  "small_cfg = mk_config 64 64 32 1 (Some 8) 2 4"


definition small_a :: buffer where
  "small_a x = real_of_int x"

definition small_b :: buffer where
  "small_b x = 1"


section \<open>The wrapper\<close>

text \<open>
  What \<^verbatim>\<open>matmul\<close> can raise: a failed \<^verbatim>\<open>assert\<close> with its message, an index outside a
  shape, and an unpacking of a shape that has not two dimensions.
\<close>

datatype error = AssertionError string | IndexError | ValueError

text \<open>
  A tensor as far as the wrapper looks at it: shape, strides, element type, and the buffer
  it points into.
\<close>

record tensor =
  shape :: "int list"
  stride :: "int list"
  dtype :: dtype
  data_ptr :: int
  storage :: buffer

definition shape_at :: "tensor \<Rightarrow> nat \<Rightarrow> error + int" where
  "shape_at t i = (if i < length (shape t) then Inr (shape t ! i) else Inl IndexError)"

definition stride_at :: "tensor \<Rightarrow> nat \<Rightarrow> error + int" where
  "stride_at t i = (if i < length (stride t) then Inr (stride t ! i) else Inl IndexError)"

text \<open>\<^verbatim>\<open>x, y = t.shape\<close>\<close>

definition unpack2 :: "int list \<Rightarrow> error + int \<times> int" where
  "unpack2 xs = (case xs of [x, y] \<Rightarrow> Inr (x, y) | _ \<Rightarrow> Inl ValueError)"

text \<open>
  \<^verbatim>\<open>is_contiguous\<close> is a function of the tensor library; it is modelled as the library
  computes it: a tensor without elements is contiguous, and otherwise, from the last
  dimension to the first, every dimension of a size other than one has the stride that
  the dimensions behind it fill.
\<close>

fun contiguous_from :: "int \<Rightarrow> (int \<times> int) list \<Rightarrow> bool" where
  "contiguous_from expected [] = True"
| "contiguous_from expected ((size_d, stride_d) # rest) =
     (if size_d = 1 then contiguous_from expected rest
      else stride_d = expected \<and> contiguous_from (expected * size_d) rest)"

definition is_contiguous :: "tensor \<Rightarrow> bool" where
  "is_contiguous t \<longleftrightarrow>
     prod_list (shape t) = 0 \<or> contiguous_from 1 (rev (zip (shape t) (stride t)))"

text \<open>
  \<^verbatim>\<open>torch.empty((M, N), dtype=...)\<close>: a row-major tensor at a fresh address, whose contents
  are whatever the memory held; address and contents are the parameter \<open>fresh\<close>.
\<close>

definition torch_empty :: "int \<times> buffer \<Rightarrow> int \<Rightarrow> int \<Rightarrow> dtype \<Rightarrow> tensor" where
  "torch_empty fresh m n dt =
     \<lparr>shape = [m, n], stride = [max n 1, 1], dtype = dt,
      data_ptr = fst fresh, storage = snd fresh\<rparr>"

text \<open>Sequencing: an error ends the call, a value is passed on.\<close>

definition and_then :: "error + 'a \<Rightarrow> ('a \<Rightarrow> error + 'b) \<Rightarrow> error + 'b" where
  "and_then m f = (case m of Inl e \<Rightarrow> Inl e | Inr x \<Rightarrow> f x)"

text \<open>The arguments that \<^verbatim>\<open>matmul\<close> passes to the kernel.\<close>

definition launch_args ::
  "tensor \<Rightarrow> tensor \<Rightarrow> tensor \<Rightarrow> int \<Rightarrow> int \<Rightarrow> int \<Rightarrow> error + kernel_args" where
  "launch_args a b c M N K =
     and_then (stride_at a 0) (\<lambda>a0.
     and_then (stride_at a 1) (\<lambda>a1.
     and_then (stride_at b 0) (\<lambda>b0.
     and_then (stride_at b 1) (\<lambda>b1.
     and_then (stride_at c 0) (\<lambda>c0.
     and_then (stride_at c 1) (\<lambda>c1.
       Inr \<lparr>a_ptr = data_ptr a, b_ptr = data_ptr b, c_ptr = data_ptr c,
            a_elem = dtype a, b_elem = dtype b,
            dim_M = M, dim_N = N, dim_K = K,
            stride_am = a0, stride_ak = a1, stride_bk = b0, stride_bn = b1,
            stride_cm = c0, stride_cn = c1\<rparr>))))))"

text \<open>
  \<^verbatim>\<open>matmul(a, b, activation)\<close>, the selector \<^verbatim>\<open>activation\<close> being \<open>act\<close>. The configuration
  \<open>cfg\<close> is the one the autotuner resolves for the call. The result is the error raised, or
  the tensor \<open>c\<close> after the launch.
\<close>

definition matmul ::
  "(dtype \<Rightarrow> real \<Rightarrow> real) \<Rightarrow> Config \<Rightarrow> int \<times> buffer \<Rightarrow> tensor \<Rightarrow> tensor \<Rightarrow> string
   \<Rightarrow> error + tensor" where
  "matmul cast cfg fresh a b act =
     and_then (shape_at a 1) (\<lambda>a1.
     and_then (shape_at b 0) (\<lambda>b0.
       if a1 \<noteq> b0 then Inl (AssertionError ''Incompatible dimensions'')
       else if \<not> is_contiguous a then Inl (AssertionError ''Matrix A must be contiguous'')
       else
         and_then (unpack2 (shape a)) (\<lambda>(M, K).
         and_then (unpack2 (shape b)) (\<lambda>(K, N).
           let c = torch_empty fresh M N Float16;
               grid = cdiv M (BLOCK_SIZE_M cfg) * cdiv N (BLOCK_SIZE_N cfg)
           in and_then (launch_args a b c M N K) (\<lambda>args.
                Inr (c\<lparr>storage :=
                       fst (launch grid
                              (matmul_kernel cast (storage a) (storage b) args cfg act)
                              (storage c))\<rparr>))))))"

text \<open>The inputs of the first unit test in a small size, with float8 elements.\<close>

definition small_tensor_a :: tensor where
  "small_tensor_a =
     \<lparr>shape = [2, 2], stride = [2, 1], dtype = Float8e5m2, data_ptr = 0, storage = small_a\<rparr>"

definition small_tensor_b :: tensor where
  "small_tensor_b =
     \<lparr>shape = [2, 2], stride = [1, 2], dtype = Float8e5m2, data_ptr = 0, storage = small_b\<rparr>"

text \<open>A transposed view of \<open>small_tensor_a\<close> is not contiguous; a three by two tensor does not fit.\<close>

definition small_tensor_at :: tensor where
  "small_tensor_at =
     \<lparr>shape = [2, 2], stride = [1, 2], dtype = Float16, data_ptr = 0, storage = small_a\<rparr>"

definition small_tensor_32 :: tensor where
  "small_tensor_32 =
     \<lparr>shape = [3, 2], stride = [2, 1], dtype = Float16, data_ptr = 0, storage = small_b\<rparr>"

section \<open>The autotuner\<close>

text \<open>
  Modelled from the spec: the Autotuner. The source only applies the decorator
  \<^verbatim>\<open>triton.autotune(configs=get_autotune_config(), key=['M', 'N', 'K'])\<close> to the kernel; the
  autotuner itself is library code that the source does not contain. Following the
  specification: \<open>select\<close> looks the shape key up in a cache; on a miss it benchmarks every
  candidate of the catalog, leaves out the candidates that fail to execute, memoizes the
  candidate of the lowest measured cost under the key and counts one benchmarking sweep;
  on a hit it returns the cached configuration at once. A catalog without a working
  candidate is fatal. The measurement \<open>bench n key cfg\<close> of a candidate in sweep number \<open>n\<close>
  is a parameter: \<open>None\<close> when the candidate fails to execute, its cost otherwise.
\<close>

type_synonym shape_key = "int \<times> int \<times> int"

record autotuner =
  cache :: "shape_key \<rightharpoonup> Config"
  sweeps :: nat

datatype autotune_error = CatalogExhausted

fun lowest_cost :: "(Config \<times> nat) list \<Rightarrow> (Config \<times> nat) option" where
  "lowest_cost [] = None"
| "lowest_cost ((cfg, t) # rest) =
     (case lowest_cost rest of
        None \<Rightarrow> Some (cfg, t)
      | Some (cfg', t') \<Rightarrow> if t \<le> t' then Some (cfg, t) else Some (cfg', t'))"

definition benchmark_sweep ::
  "(nat \<Rightarrow> shape_key \<Rightarrow> Config \<Rightarrow> nat option) \<Rightarrow> nat \<Rightarrow> shape_key \<Rightarrow> Config list
   \<Rightarrow> Config option" where
  "benchmark_sweep bench n key configs =
     map_option fst
       (lowest_cost (List.map_filter (\<lambda>cfg. map_option (Pair cfg) (bench n key cfg)) configs))"

definition select ::
  "(nat \<Rightarrow> shape_key \<Rightarrow> Config \<Rightarrow> nat option) \<Rightarrow> Config list \<Rightarrow> shape_key \<Rightarrow> autotuner
   \<Rightarrow> (autotune_error + Config) \<times> autotuner" where
  "select bench configs key st =
     (case cache st key of
        Some cfg \<Rightarrow> (Inr cfg, st)
      | None \<Rightarrow>
         (case benchmark_sweep bench (sweeps st) key configs of
            None \<Rightarrow> (Inl CatalogExhausted, st\<lparr>sweeps := Suc (sweeps st)\<rparr>)
          | Some cfg \<Rightarrow>
              (Inr cfg, st\<lparr>cache := (cache st)(key \<mapsto> cfg), sweeps := Suc (sweeps st)\<rparr>)))"

text \<open>The calls of a process after a first one, for the shape keys \<open>keys\<close> in turn.\<close>

definition later_calls ::
  "(nat \<Rightarrow> shape_key \<Rightarrow> Config \<Rightarrow> nat option) \<Rightarrow> Config list \<Rightarrow> shape_key list \<Rightarrow> autotuner
   \<Rightarrow> autotuner" where
  "later_calls bench configs keys st = fold (\<lambda>key st. snd (select bench configs key st)) keys st"

definition empty_autotuner :: autotuner where
  "empty_autotuner = \<lparr>cache = Map.empty, sweeps = 0\<rparr>"

section \<open>When no machine integer wraps around\<close>














section \<open>Instances at the edge of 32 bits\<close>


definition zeros :: buffer where
  "zeros x = 0"


definition no_rounding :: "dtype \<Rightarrow> real \<Rightarrow> real" where
  "no_rounding dt x = x"






section \<open>The grouped ordering is a bijection\<close>

lemma div_mod_unique:
  fixes q r d :: int
  assumes "0 \<le> r" "r < d"
  shows "(q * d + r) div d = q" "(q * d + r) mod d = r"
  using assms by simp_all







lemma catalog_positive:
  assumes "cfg \<in> set (get_autotune_config is_cuda)"
  shows "0 < BLOCK_SIZE_M cfg \<and> 0 < BLOCK_SIZE_N cfg \<and> 0 < BLOCK_SIZE_K cfg
         \<and> 1 \<le> GROUP_SIZE_M cfg"
  using assms
  by (auto simp: get_autotune_config_def get_cuda_autotune_config_def
        get_hip_autotune_config_def mk_config_def split: if_splits)

section \<open>Blocks as tables of their entries\<close>

lemma table_length [simp]: "length (table f m n) = m"
  by (simp add: table_def)

lemma table_nth [simp]: "r < m \<Longrightarrow> table f m n ! r = map (f r) [0..<n]"
  by (simp add: table_def)

lemma table_nth2: "r < m \<Longrightarrow> c < n \<Longrightarrow> table f m n ! r ! c = f r c"
  by simp


lemma arange_0: "arange 0 n = map int [0..<nat n]"
  by (simp add: arange_def)










section \<open>The loop over \<open>k\<close>\<close>

















section \<open>The masked store\<close>







section \<open>One program instance\<close>




section \<open>The launch grid\<close>

lemma launch_fold:
  "fold (\<lambda>pid (buf, n). (kern pid buf, Suc n)) ps (c_buf, k) = (fold kern ps c_buf, k + length ps)"
  by (induction ps arbitrary: c_buf k) simp_all

lemma launch_eq: "launch grid kern c_buf = (fold kern (arange 0 grid) c_buf, nat grid)"
  by (simp add: launch_def launch_fold arange_0)









section \<open>The product\<close>

lemma C_distinct_row_major:
  assumes cn: "stride_cn args = 1" and cm: "dim_N args \<le> stride_cm args"
  shows "C_distinct args"
  unfolding C_distinct_def
proof (rule inj_onI)
  fix x y :: "int \<times> int"
  assume x: "x \<in> {0..<dim_M args} \<times> {0..<dim_N args}"
    and y: "y \<in> {0..<dim_M args} \<times> {0..<dim_N args}"
    and e: "(case x of (i, j) \<Rightarrow> C_addr args i j) = (case y of (i, j) \<Rightarrow> C_addr args i j)"
  obtain i j where xe: "x = (i, j)" by (cases x)
  obtain i' j' where ye: "y = (i', j')" by (cases y)
  let ?s = "stride_cm args"
  have j: "0 \<le> j" "j < ?s" "0 \<le> j'" "j' < ?s" using x y cm by (auto simp: xe ye)
  have "i * ?s + j = i' * ?s + j'"
    using e by (simp add: xe ye C_addr_def cn mult.commute)
  hence "(i * ?s + j) div ?s = (i' * ?s + j') div ?s" "(i * ?s + j) mod ?s = (i' * ?s + j') mod ?s"
    by simp_all
  hence "i = i'" "j = j'"
    unfolding div_mod_unique[OF j(1,2)] div_mod_unique[OF j(3,4)] by simp_all
  thus "x = y" by (simp add: xe ye)
qed






section \<open>Masking along the reduction axis\<close>






section \<open>Wrapped indices\<close>



section \<open>The fused activation\<close>




section \<open>The wrapper\<close>

lemma and_then_simps [simp]:
  "and_then (Inl e) f = Inl e" "and_then (Inr x) f = f x"
  by (simp_all add: and_then_def)

lemma matmul_mismatch:
  assumes "shape_at a 1 = Inr a1" "shape_at b 0 = Inr b0" "a1 \<noteq> b0"
  shows "matmul cast cfg fresh a b act = Inl (AssertionError ''Incompatible dimensions'')"
  using assms by (simp add: matmul_def)

lemma matmul_not_contiguous:
  assumes "\<not> is_contiguous a"
  shows "\<exists>e. matmul cast cfg fresh a b act = Inl e"
proof (cases "shape_at a 1")
  case (Inl e)
  thus ?thesis by (simp add: matmul_def)
next
  case a1: (Inr a1)
  show ?thesis
  proof (cases "shape_at b 0")
    case (Inl e)
    thus ?thesis using a1 by (simp add: matmul_def)
  next
    case (Inr b0)
    thus ?thesis using a1 assms by (simp add: matmul_def)
  qed
qed

lemma matmul_not_contiguous_message:
  assumes "shape_at a 1 = Inr k" "shape_at b 0 = Inr k" "\<not> is_contiguous a"
  shows "matmul cast cfg fresh a b act = Inl (AssertionError ''Matrix A must be contiguous'')"
  using assms by (simp add: matmul_def)

lemma matmul_success:
  assumes a: "shape a = [M, K]" and b: "shape b = [K, N]" and c: "is_contiguous a"
    and sa: "stride a = [am, ak]" and sb: "stride b = [bk, bn]"
  shows "matmul cast cfg fresh a b act =
     Inr ((torch_empty fresh M N Float16)\<lparr>storage :=
        fst (launch (cdiv M (BLOCK_SIZE_M cfg) * cdiv N (BLOCK_SIZE_N cfg))
               (matmul_kernel cast (storage a) (storage b)
                  \<lparr>a_ptr = data_ptr a, b_ptr = data_ptr b, c_ptr = fst fresh,
                   a_elem = dtype a, b_elem = dtype b,
                   dim_M = M, dim_N = N, dim_K = K,
                   stride_am = am, stride_ak = ak, stride_bk = bk, stride_bn = bn,
                   stride_cm = max N 1, stride_cn = 1\<rparr> cfg act)
               (snd fresh))\<rparr>)"
  using c
  by (simp add: matmul_def shape_at_def a b unpack2_def launch_args_def stride_at_def sa sb
      torch_empty_def Let_def)

lemma matmul_result:
  assumes "matmul cast cfg fresh a b act = Inr c"
  shows "dtype c = Float16 \<and> (\<exists>M K N. shape a = [M, K] \<and> shape b = [K, N] \<and> shape c = [M, N])"
proof -
  obtain a1 where a1: "shape_at a 1 = Inr a1"
    using assms by (cases "shape_at a 1") (simp_all add: matmul_def)
  obtain b0 where b0: "shape_at b 0 = Inr b0"
    using assms a1 by (cases "shape_at b 0") (simp_all add: matmul_def)
  have eq: "a1 = b0" and cont: "is_contiguous a"
    using assms a1 b0 by (auto simp: matmul_def split: if_splits)
  obtain M K where ua: "unpack2 (shape a) = Inr (M, K)"
    using assms a1 b0 eq cont by (cases "unpack2 (shape a)") (auto simp: matmul_def)
  obtain K' N where ub: "unpack2 (shape b) = Inr (K', N)"
    using assms a1 b0 eq cont ua by (cases "unpack2 (shape b)") (auto simp: matmul_def)
  have sa: "shape a = [M, K]" using ua
    by (auto simp: unpack2_def split: list.splits)
  have sb: "shape b = [K', N]" using ub
    by (auto simp: unpack2_def split: list.splits)
  have "K = K'" using a1 b0 eq sa sb by (simp add: shape_at_def)
  obtain args where la: "launch_args a b (torch_empty fresh M N Float16) M N K' = Inr args"
    using assms a1 b0 eq cont ua ub
    by (cases "launch_args a b (torch_empty fresh M N Float16) M N K'")
       (auto simp: matmul_def Let_def)
  have "c = (torch_empty fresh M N Float16)\<lparr>storage :=
        fst (launch (cdiv M (BLOCK_SIZE_M cfg) * cdiv N (BLOCK_SIZE_N cfg))
               (matmul_kernel cast (storage a) (storage b) args cfg act)
               (storage (torch_empty fresh M N Float16)))\<rparr>"
    using assms a1 b0 eq cont ua ub la by (simp add: matmul_def Let_def)
  hence "dtype c = Float16" "shape c = [M, N]" by (simp_all add: torch_empty_def)
  thus ?thesis using sa sb \<open>K = K'\<close> by simp
qed

lemma small_tensor_facts:
  "shape small_tensor_a = [2, 2]" "shape small_tensor_b = [2, 2]"
  "stride small_tensor_a = [2, 1]" "stride small_tensor_b = [1, 2]"
  "is_contiguous small_tensor_a" "\<not> is_contiguous small_tensor_at"
  "shape_at small_tensor_a 1 = Inr 2" "shape_at small_tensor_at 1 = Inr 2"
  "shape_at small_tensor_b 0 = Inr 2" "shape_at small_tensor_32 0 = Inr 3"
  by (simp_all add: small_tensor_a_def small_tensor_b_def small_tensor_at_def
      small_tensor_32_def is_contiguous_def shape_at_def)

text \<open>
  Claim C10. Whatever the element types of \<open>a\<close> and \<open>b\<close>, a tensor that \<^verbatim>\<open>matmul\<close> returns has
  the element type float16 and the shape \<open>(M, N)\<close>, where \<open>a\<close> has the shape \<open>(M, K)\<close> and \<open>b\<close> the
  shape \<open>(K, N)\<close>; and for such \<open>a\<close> and \<open>b\<close>, with \<open>a\<close> contiguous, it does return one.
\<close>

theorem matmul_output_float16:
  "(\<forall>c. matmul cast cfg fresh a b act = Inr c \<longrightarrow>
      dtype c = Float16
      \<and> (\<exists>M K N. shape a = [M, K] \<and> shape b = [K, N] \<and> shape c = [M, N]))
   \<and> (\<forall>M K N am ak bk bn.
        shape a = [M, K] \<and> shape b = [K, N] \<and> is_contiguous a
        \<and> stride a = [am, ak] \<and> stride b = [bk, bn] \<longrightarrow>
        (\<exists>c. matmul cast cfg fresh a b act = Inr c \<and> dtype c = Float16 \<and> shape c = [M, N]))"
proof (rule conjI)
  show "\<forall>c. matmul cast cfg fresh a b act = Inr c \<longrightarrow>
      dtype c = Float16
      \<and> (\<exists>M K N. shape a = [M, K] \<and> shape b = [K, N] \<and> shape c = [M, N])"
    using matmul_result[of cast cfg fresh a b act] by (intro allI impI)
next
  show "\<forall>M K N am ak bk bn.
        shape a = [M, K] \<and> shape b = [K, N] \<and> is_contiguous a
        \<and> stride a = [am, ak] \<and> stride b = [bk, bn] \<longrightarrow>
        (\<exists>c. matmul cast cfg fresh a b act = Inr c \<and> dtype c = Float16 \<and> shape c = [M, N])"
  proof (intro allI impI)
  fix M K N am ak bk bn
  assume h: "shape a = [M, K] \<and> shape b = [K, N] \<and> is_contiguous a
        \<and> stride a = [am, ak] \<and> stride b = [bk, bn]"
  have "matmul cast cfg fresh a b act =
     Inr ((torch_empty fresh M N Float16)\<lparr>storage :=
        fst (launch (cdiv M (BLOCK_SIZE_M cfg) * cdiv N (BLOCK_SIZE_N cfg))
               (matmul_kernel cast (storage a) (storage b)
                  \<lparr>a_ptr = data_ptr a, b_ptr = data_ptr b, c_ptr = fst fresh,
                   a_elem = dtype a, b_elem = dtype b,
                   dim_M = M, dim_N = N, dim_K = K,
                   stride_am = am, stride_ak = ak, stride_bk = bk, stride_bn = bn,
                   stride_cm = max N 1, stride_cn = 1\<rparr> cfg act)
               (snd fresh))\<rparr>)"
    using h by (intro matmul_success) simp_all
  thus "\<exists>c. matmul cast cfg fresh a b act = Inr c \<and> dtype c = Float16 \<and> shape c = [M, N]"
    by (simp add: torch_empty_def)
  qed
qed

text \<open>With float8 inputs the output is float16 all the same.\<close>

theorem matmul_output_float16_witness:
  "dtype small_tensor_a = Float8e5m2 \<and> dtype small_tensor_b = Float8e5m2
   \<and> (\<exists>c. matmul (\<lambda>dt x. x) small_cfg (0, \<lambda>x. 0) small_tensor_a small_tensor_b '''' = Inr c
          \<and> dtype c = Float16 \<and> shape c = [2, 2])"
proof -
  note f = small_tensor_facts
  note t = matmul_output_float16[of "\<lambda>dt x. x" small_cfg "(0, \<lambda>x. 0)" small_tensor_a
      small_tensor_b "''''"]
  have "\<exists>c. matmul (\<lambda>dt x. x) small_cfg (0, \<lambda>x. 0) small_tensor_a small_tensor_b '''' = Inr c
          \<and> dtype c = Float16 \<and> shape c = [2, 2]"
    by (rule mp[OF spec[OF spec[OF spec[OF spec[OF spec[OF spec[OF spec[OF
            conjunct2[OF t], where x = 2], where x = 2], where x = 2], where x = 2],
            where x = 1], where x = 1], where x = 2]])
       (intro conjI f(1) f(2) f(3) f(4) f(5))
  moreover have "dtype small_tensor_a = Float8e5m2" "dtype small_tensor_b = Float8e5m2"
    by (simp_all add: small_tensor_a_def small_tensor_b_def)
  ultimately show ?thesis by (intro conjI)
qed

section \<open>Memoization in the autotuner\<close>

lemma select_hit:
  assumes "cache st key = Some cfg"
  shows "select bench configs key st = (Inr cfg, st)"
  using assms by (simp add: select_def)

lemma select_memoizes:
  assumes "select bench configs key st = (Inr cfg, st')"
  shows "cache st' key = Some cfg"
proof (cases "cache st key")
  case (Some c)
  thus ?thesis using assms by (simp add: select_def)
next
  case None
  thus ?thesis using assms
    by (cases "benchmark_sweep bench (sweeps st) key configs") (auto simp: select_def)
qed

lemma select_keeps:
  assumes "cache st key = Some cfg"
  shows "cache (snd (select bench configs key' st)) key = Some cfg"
proof (cases "cache st key'")
  case (Some c)
  thus ?thesis using assms by (simp add: select_def)
next
  case None
  hence "key' \<noteq> key" using assms by auto
  thus ?thesis using None assms
    by (cases "benchmark_sweep bench (sweeps st) key' configs") (simp_all add: select_def)
qed

lemma later_calls_keep:
  assumes "cache st key = Some cfg"
  shows "cache (later_calls bench configs keys st) key = Some cfg"
  using assms unfolding later_calls_def
  by (induction keys arbitrary: st) (simp_all add: select_keeps)

text \<open>
  Claim C9. Once a call of \<open>select\<close> has resolved a shape key to a configuration, every
  later call with that key, after any number of calls with any keys in between, returns
  that same configuration and leaves the state of the autotuner, its count of
  benchmarking sweeps included, as it was: nothing is benchmarked again. The autotuner
  has no operation that removes or replaces an entry of the cache.
\<close>

theorem autotuner_memoizes:
  assumes "select bench configs key st = (Inr cfg, st')"
  shows "select bench configs key (later_calls bench configs keys st')
         = (Inr cfg, later_calls bench configs keys st')"
  by (rule select_hit[OF later_calls_keep[OF select_memoizes[OF assms]]])

text \<open>
  A first call for the key \<open>(2, 2, 2)\<close> runs one sweep; after calls for \<open>(4, 4, 4)\<close> and again
  \<open>(2, 2, 2)\<close> there have been two sweeps, and a further call for \<open>(2, 2, 2)\<close> adds none.
\<close>

theorem autotuner_memoizes_witness:
  "select (\<lambda>n key cfg. Some n) [small_cfg] (2, 2, 2) empty_autotuner
     = (Inr small_cfg, \<lparr>cache = [(2, 2, 2) \<mapsto> small_cfg], sweeps = 1\<rparr>)
   \<and> select (\<lambda>n key cfg. Some n) [small_cfg] (2, 2, 2)
       (later_calls (\<lambda>n key cfg. Some n) [small_cfg] [(4, 4, 4), (2, 2, 2)]
          \<lparr>cache = [(2, 2, 2) \<mapsto> small_cfg], sweeps = 1\<rparr>)
     = (Inr small_cfg,
        later_calls (\<lambda>n key cfg. Some n) [small_cfg] [(4, 4, 4), (2, 2, 2)]
          \<lparr>cache = [(2, 2, 2) \<mapsto> small_cfg], sweeps = 1\<rparr>)
   \<and> sweeps (later_calls (\<lambda>n key cfg. Some n) [small_cfg] [(4, 4, 4), (2, 2, 2)]
          \<lparr>cache = [(2, 2, 2) \<mapsto> small_cfg], sweeps = 1\<rparr>) = 2"
proof -
  have first: "select (\<lambda>n key cfg. Some n) [small_cfg] (2, 2, 2) empty_autotuner
     = (Inr small_cfg, \<lparr>cache = [(2, 2, 2) \<mapsto> small_cfg], sweeps = 1\<rparr>)"
    by (simp add: select_def empty_autotuner_def benchmark_sweep_def List.map_filter_simps)
  have count: "sweeps (later_calls (\<lambda>n key cfg. Some n) [small_cfg] [(4, 4, 4), (2, 2, 2)]
          \<lparr>cache = [(2, 2, 2) \<mapsto> small_cfg], sweeps = 1\<rparr>) = 2"
    by (simp add: later_calls_def select_def benchmark_sweep_def List.map_filter_simps)
  show ?thesis
    using first autotuner_memoizes[OF first, of "[(4, 4, 4), (2, 2, 2)]"] count
    by (intro conjI)
qed

text \<open>The \<open>C\<close> that the wrapper allocates has distinct addresses for distinct elements.\<close>

lemma wrapper_C_distinct:
  assumes "stride_cm args = max (dim_N args) 1" "stride_cn args = 1"
  shows "C_distinct args"
  using assms by (intro C_distinct_row_major) simp_all


section \<open>Machine integers that do not wrap\<close>

















section \<open>The blocks of the kernel as tables\<close>







section \<open>The kernel when no machine integer wraps around\<close>
















section \<open>One program instance on machine integers\<close>








section \<open>The grouped ordering on machine integers\<close>








section \<open>The loop over \<open>k\<close> on machine integers\<close>










section \<open>The product on machine integers\<close>







section \<open>The frame of the masked store on machine integers\<close>









section \<open>Wrapped indices on machine integers\<close>














section \<open>Rejection and dispatch in the wrapper\<close>

text \<open>
  Claim C7. When the second dimension of \<open>a\<close> differs from the first dimension of \<open>b\<close>, the
  call ends with the failed assertion \<^verbatim>\<open>"Incompatible dimensions"\<close>; when \<open>a\<close> is not contiguous
  the call ends with an error, which for fitting dimensions is the failed assertion
  \<^verbatim>\<open>"Matrix A must be contiguous"\<close>. In both cases the result is the error alone: no tensor is
  allocated and no program is launched. For two-dimensional \<open>a\<close> and \<open>b\<close> that fit, with \<open>a\<close>
  contiguous, the call returns the freshly allocated \<open>c\<close> whose storage is what the programs
  \<open>0, 1, \<dots>, cdiv M BLOCK_SIZE_M * cdiv N BLOCK_SIZE_N - 1\<close>, each run once on the storage the
  one before left, make of the fresh storage: the launch runs these programs and no other.
\<close>

theorem matmul_rejects_or_dispatches:
  "(\<forall>a1 b0. shape_at a 1 = Inr a1 \<and> shape_at b 0 = Inr b0 \<and> a1 \<noteq> b0 \<longrightarrow>
      matmul cast cfg fresh a b act = Inl (AssertionError ''Incompatible dimensions''))
   \<and> (\<not> is_contiguous a \<longrightarrow> (\<exists>e. matmul cast cfg fresh a b act = Inl e))
   \<and> (\<forall>k. shape_at a 1 = Inr k \<and> shape_at b 0 = Inr k \<and> \<not> is_contiguous a \<longrightarrow>
      matmul cast cfg fresh a b act = Inl (AssertionError ''Matrix A must be contiguous''))
   \<and> (\<forall>M K N am ak bk bn.
        shape a = [M, K] \<and> shape b = [K, N] \<and> is_contiguous a
        \<and> stride a = [am, ak] \<and> stride b = [bk, bn] \<longrightarrow>
        matmul cast cfg fresh a b act =
          Inr ((torch_empty fresh M N Float16)\<lparr>storage :=
            fold (matmul_kernel cast (storage a) (storage b)
                    \<lparr>a_ptr = data_ptr a, b_ptr = data_ptr b, c_ptr = fst fresh,
                     a_elem = dtype a, b_elem = dtype b,
                     dim_M = M, dim_N = N, dim_K = K,
                     stride_am = am, stride_ak = ak, stride_bk = bk, stride_bn = bn,
                     stride_cm = max N 1, stride_cn = 1\<rparr> cfg act)
                 (map int [0..<nat (cdiv M (BLOCK_SIZE_M cfg) * cdiv N (BLOCK_SIZE_N cfg))])
                 (snd fresh)\<rparr>)
        \<and> launch (cdiv M (BLOCK_SIZE_M cfg) * cdiv N (BLOCK_SIZE_N cfg))
                   (matmul_kernel cast (storage a) (storage b)
                      \<lparr>a_ptr = data_ptr a, b_ptr = data_ptr b, c_ptr = fst fresh,
                       a_elem = dtype a, b_elem = dtype b,
                       dim_M = M, dim_N = N, dim_K = K,
                       stride_am = am, stride_ak = ak, stride_bk = bk, stride_bn = bn,
                       stride_cm = max N 1, stride_cn = 1\<rparr> cfg act)
                   (snd fresh)
          = (fold (matmul_kernel cast (storage a) (storage b)
                    \<lparr>a_ptr = data_ptr a, b_ptr = data_ptr b, c_ptr = fst fresh,
                     a_elem = dtype a, b_elem = dtype b,
                     dim_M = M, dim_N = N, dim_K = K,
                     stride_am = am, stride_ak = ak, stride_bk = bk, stride_bn = bn,
                     stride_cm = max N 1, stride_cn = 1\<rparr> cfg act)
                 (map int [0..<nat (cdiv M (BLOCK_SIZE_M cfg) * cdiv N (BLOCK_SIZE_N cfg))])
                 (snd fresh),
             nat (cdiv M (BLOCK_SIZE_M cfg) * cdiv N (BLOCK_SIZE_N cfg))))"
proof (intro conjI allI impI)
  fix a1 b0
  assume "shape_at a 1 = Inr a1 \<and> shape_at b 0 = Inr b0 \<and> a1 \<noteq> b0"
  thus "matmul cast cfg fresh a b act = Inl (AssertionError ''Incompatible dimensions'')"
    by (intro matmul_mismatch[of a a1 b b0]) simp_all
next
  assume "\<not> is_contiguous a"
  thus "\<exists>e. matmul cast cfg fresh a b act = Inl e" by (rule matmul_not_contiguous)
next
  fix k
  assume "shape_at a 1 = Inr k \<and> shape_at b 0 = Inr k \<and> \<not> is_contiguous a"
  thus "matmul cast cfg fresh a b act = Inl (AssertionError ''Matrix A must be contiguous'')"
    by (intro matmul_not_contiguous_message[of a k b]) simp_all
next
  fix M K N am ak bk bn
  let ?kern = "matmul_kernel cast (storage a) (storage b)
                    \<lparr>a_ptr = data_ptr a, b_ptr = data_ptr b, c_ptr = fst fresh,
                     a_elem = dtype a, b_elem = dtype b,
                     dim_M = M, dim_N = N, dim_K = K,
                     stride_am = am, stride_ak = ak, stride_bk = bk, stride_bn = bn,
                     stride_cm = max N 1, stride_cn = 1\<rparr> cfg act"
  let ?grid = "cdiv M (BLOCK_SIZE_M cfg) * cdiv N (BLOCK_SIZE_N cfg)"
  assume h: "shape a = [M, K] \<and> shape b = [K, N] \<and> is_contiguous a
        \<and> stride a = [am, ak] \<and> stride b = [bk, bn]"
  have "matmul cast cfg fresh a b act =
          Inr ((torch_empty fresh M N Float16)\<lparr>storage := fst (launch ?grid ?kern (snd fresh))\<rparr>)"
    using h by (intro matmul_success) simp_all
  thus "matmul cast cfg fresh a b act =
          Inr ((torch_empty fresh M N Float16)\<lparr>storage :=
            fold ?kern (map int [0..<nat ?grid]) (snd fresh)\<rparr>)"
    unfolding launch_eq fst_conv arange_0 .
  show "launch ?grid ?kern (snd fresh)
        = (fold ?kern (map int [0..<nat ?grid]) (snd fresh), nat ?grid)"
    unfolding launch_eq arange_0 ..
qed

text \<open>
  A two by two times a three by two tensor is rejected for its dimensions, a transposed
  view as \<open>a\<close> for its strides, and the two small tensors are accepted: one program is run on
  the fresh storage.
\<close>

theorem matmul_rejects_or_dispatches_witness:
  "matmul no_rounding small_cfg (0, zeros) small_tensor_a small_tensor_32 ''''
     = Inl (AssertionError ''Incompatible dimensions'')
   \<and> matmul no_rounding small_cfg (0, zeros) small_tensor_at small_tensor_b ''''
     = Inl (AssertionError ''Matrix A must be contiguous'')
   \<and> (\<exists>c. matmul no_rounding small_cfg (0, zeros) small_tensor_a small_tensor_b '''' = Inr c)"
proof -
  note f = small_tensor_facts
  have n: "(2::int) \<noteq> 3" by simp
  note t1 = matmul_rejects_or_dispatches[of small_tensor_a small_tensor_32 no_rounding small_cfg
      "(0, zeros)" "''''"]
  note t2 = matmul_rejects_or_dispatches[of small_tensor_at small_tensor_b no_rounding small_cfg
      "(0, zeros)" "''''"]
  note t3 = matmul_rejects_or_dispatches[of small_tensor_a small_tensor_b no_rounding small_cfg
      "(0, zeros)" "''''"]
  have "matmul no_rounding small_cfg (0, zeros) small_tensor_a small_tensor_32 ''''
     = Inl (AssertionError ''Incompatible dimensions'')"
    by (rule mp[OF spec[OF spec[OF conjunct1[OF t1], where x = 2], where x = 3]])
       (intro conjI f(7) f(10) n)
  moreover have "matmul no_rounding small_cfg (0, zeros) small_tensor_at small_tensor_b ''''
     = Inl (AssertionError ''Matrix A must be contiguous'')"
    by (rule mp[OF spec[OF conjunct1[OF conjunct2[OF conjunct2[OF t2]]], where x = 2]])
       (intro conjI f(8) f(9) f(6))
  moreover have "\<exists>c. matmul no_rounding small_cfg (0, zeros) small_tensor_a small_tensor_b '''' = Inr c"
  proof -
    note u = conjunct2[OF conjunct2[OF conjunct2[OF t3]]]
    note v = spec[OF spec[OF spec[OF spec[OF spec[OF spec[OF spec[OF u, where x = 2],
               where x = 2], where x = 2], where x = 2], where x = 1], where x = 1], where x = 2]
    have "shape small_tensor_a = [2, 2] \<and> shape small_tensor_b = [2, 2]
          \<and> is_contiguous small_tensor_a
          \<and> stride small_tensor_a = [2, 1] \<and> stride small_tensor_b = [1, 2]"
      by (intro conjI f(1) f(2) f(3) f(4) f(5))
    from conjunct1[OF mp[OF v this]] show ?thesis by (rule exI)
  qed
  ultimately show ?thesis by (intro conjI)
qed


end
